theory Spec2Isabelle
  imports
    Complex_Main
    "HOL-Library.Char_ord"
    "HOL-Library.List_Lexorder"
    "HOL-Library.Product_Lexorder"
begin

section \<open>The transport client: \<open>src/presentation-tier/frontend/src/lib/api.ts\<close>\<close>

subsection \<open>JavaScript values as the client meets them\<close>

text \<open>
  A response body is what axios hands over after parsing: a JSON value, or \<open>undefined\<close>
  when there is none. Numbers are kept as rationals; the client only ever tests them for
  truthiness.
\<close>

datatype jsval =
    JUndefined
  | JNull
  | JBool bool
  | JNum rat
  | JStr string
  | JArr "jsval list"
  | JObj "(string \<times> jsval) list"

text \<open>JavaScript truthiness, which decides \<open>if (token)\<close> and every \<open>a || b\<close>.\<close>

fun truthy :: "jsval \<Rightarrow> bool" where
  "truthy JUndefined = False"
| "truthy JNull = False"
| "truthy (JBool b) = b"
| "truthy (JNum n) = (n \<noteq> 0)"
| "truthy (JStr s) = (s \<noteq> [])"
| "truthy (JArr _) = True"
| "truthy (JObj _) = True"

text \<open>\<open>a || b\<close>: the left operand when it is truthy, the right one otherwise.\<close>

definition js_or :: "jsval \<Rightarrow> jsval \<Rightarrow> jsval" where
  "js_or a b = (if truthy a then a else b)"

text \<open>
  \<open>v?.name\<close>: \<open>undefined\<close> on \<open>null\<close> and \<open>undefined\<close>, the property otherwise. The
  names the client reads (\<open>message\<close>, \<open>code\<close>, \<open>timestamp\<close>, \<open>details\<close>, \<open>data\<close>) are
  not built-in properties of strings, numbers, booleans or arrays, so only an object can
  hold them.
\<close>

fun opt_member :: "jsval \<Rightarrow> string \<Rightarrow> jsval" where
  "opt_member (JObj kvs) name = (case map_of kvs name of Some v \<Rightarrow> v | None \<Rightarrow> JUndefined)"
| "opt_member _ name = JUndefined"

datatype js_error = TypeError

text \<open>\<open>v.name\<close> without the question mark throws a TypeError on \<open>null\<close> and \<open>undefined\<close>.\<close>

fun member :: "jsval \<Rightarrow> string \<Rightarrow> js_error + jsval" where
  "member JUndefined name = Inl TypeError"
| "member JNull name = Inl TypeError"
| "member v name = Inr (opt_member v name)"

subsection \<open>Requests, responses, errors\<close>

datatype js_file = File (fileName: string) (fileBytes: "nat list")

datatype body = NoBody | JsonBody jsval | FormData "(string \<times> js_file) list"

text \<open>
  \<open>AxiosRequestConfig\<close>, with the fields this client sets or reads. Every field is
  optional in a caller's config; \<open>onUploadProgress\<close> records whether a progress callback
  is installed.
\<close>

record request_config =
  url :: "string option"
  "method" :: "string option"
  baseURL :: "string option"
  timeout :: "nat option"
  headers :: "string \<rightharpoonup> string"
  data :: body
  params :: jsval
  responseType :: "string option"
  onUploadProgress :: bool
  metadata :: "int option"

record axios_response =
  status :: int
  resp_data :: jsval
  resp_config :: request_config

text \<open>
  What the response interceptor's error handler receives: \<open>error.response\<close> when the server
  answered, \<open>error.request\<close> (here: whether it is set) when a request went out, and
  \<open>error.config\<close>.
\<close>

record axios_error =
  response :: "axios_response option"
  request :: bool
  config :: "request_config option"

text \<open>
  \<open>ApiError\<close>. The message, code and timestamp come from \<open>data?.x || default\<close>, so at run
  time they are whatever truthy value the server sent.
\<close>

record api_error =
  message :: jsval
  code :: jsval
  timestamp :: jsval
  path :: string
  details :: jsval

text \<open>What a rejected promise carries: the normalised error, or an exception thrown on the way.\<close>

datatype rejection = ApiErr api_error | Thrown js_error

subsection \<open>The environment\<close>

text \<open>
  \<open>window\<close> is absent outside a browser (\<open>typeof window === 'undefined'\<close>). The clock is
  read by \<open>Date.now()\<close> and \<open>new Date().toISOString()\<close>. A console line is kept as its
  three interpolated parts: the method in upper case, the url and the duration.
\<close>

record browser =
  localStorage :: "string \<rightharpoonup> string"
  location_href :: string

record log_entry =
  log_method :: "string option"
  log_url :: "string option"
  log_duration :: int

record world =
  window :: "browser option"
  NODE_ENV :: "string option"
  API_BASE_URL :: "string option"
  dateNow :: int
  dateISO :: string
  console :: "log_entry list"

text \<open>
  The network behind axios: given the final config it yields a response or an error, and
  the world as it is when the promise settles (time has passed, storage may have changed).
\<close>

type_synonym adapter = "request_config \<Rightarrow> world \<Rightarrow> (axios_error + axios_response) \<times> world"

subsection \<open>Message literals\<close>

text \<open>
  The Korean message literals of lines 135, 148, 151, 154, 162 and 171, as the UTF-8 bytes
  of the source file.
\<close>

definition msg_server_error :: string where
  "msg_server_error =
    [CHR 0xEC, CHR 0x84, CHR 0x9C, CHR 0xEB, CHR 0xB2, CHR 0x84, CHR 0x20, CHR 0xEC, CHR 0x98,
     CHR 0xA4, CHR 0xEB, CHR 0xA5, CHR 0x98, CHR 0xEA, CHR 0xB0, CHR 0x80, CHR 0x20, CHR 0xEB,
     CHR 0xB0, CHR 0x9C, CHR 0xEC, CHR 0x83, CHR 0x9D, CHR 0xED, CHR 0x96, CHR 0x88, CHR 0xEC,
     CHR 0x8A, CHR 0xB5, CHR 0xEB, CHR 0x8B, CHR 0x88, CHR 0xEB, CHR 0x8B, CHR 0xA4, CHR 0x2E]"

definition msg_forbidden :: string where
  "msg_forbidden =
    [CHR 0xEC, CHR 0xA0, CHR 0x91, CHR 0xEA, CHR 0xB7, CHR 0xBC, CHR 0x20, CHR 0xEA, CHR 0xB6,
     CHR 0x8C, CHR 0xED, CHR 0x95, CHR 0x9C, CHR 0xEC, CHR 0x9D, CHR 0xB4, CHR 0x20, CHR 0xEC,
     CHR 0x97, CHR 0x86, CHR 0xEC, CHR 0x8A, CHR 0xB5, CHR 0xEB, CHR 0x8B, CHR 0x88, CHR 0xEB,
     CHR 0x8B, CHR 0xA4, CHR 0x2E]"

definition msg_not_found :: string where
  "msg_not_found =
    [CHR 0xEC, CHR 0x9A, CHR 0x94, CHR 0xEC, CHR 0xB2, CHR 0xAD, CHR 0xED, CHR 0x95, CHR 0x9C,
     CHR 0x20, CHR 0xEB, CHR 0xA6, CHR 0xAC, CHR 0xEC, CHR 0x86, CHR 0x8C, CHR 0xEC, CHR 0x8A,
     CHR 0xA4, CHR 0xEB, CHR 0xA5, CHR 0xBC, CHR 0x20, CHR 0xEC, CHR 0xB0, CHR 0xBE, CHR 0xEC,
     CHR 0x9D, CHR 0x84, CHR 0x20, CHR 0xEC, CHR 0x88, CHR 0x98, CHR 0x20, CHR 0xEC, CHR 0x97,
     CHR 0x86, CHR 0xEC, CHR 0x8A, CHR 0xB5, CHR 0xEB, CHR 0x8B, CHR 0x88, CHR 0xEB, CHR 0x8B,
     CHR 0xA4, CHR 0x2E]"

definition msg_internal :: string where
  "msg_internal =
    [CHR 0xEC, CHR 0x84, CHR 0x9C, CHR 0xEB, CHR 0xB2, CHR 0x84, CHR 0x20, CHR 0xEB, CHR 0x82,
     CHR 0xB4, CHR 0xEB, CHR 0xB6, CHR 0x80, CHR 0x20, CHR 0xEC, CHR 0x98, CHR 0xA4, CHR 0xEB,
     CHR 0xA5, CHR 0x98, CHR 0xEA, CHR 0xB0, CHR 0x80, CHR 0x20, CHR 0xEB, CHR 0xB0, CHR 0x9C,
     CHR 0xEC, CHR 0x83, CHR 0x9D, CHR 0xED, CHR 0x96, CHR 0x88, CHR 0xEC, CHR 0x8A, CHR 0xB5,
     CHR 0xEB, CHR 0x8B, CHR 0x88, CHR 0xEB, CHR 0x8B, CHR 0xA4, CHR 0x2E]"

definition msg_network :: string where
  "msg_network =
    [CHR 0xEB, CHR 0x84, CHR 0xA4, CHR 0xED, CHR 0x8A, CHR 0xB8, CHR 0xEC, CHR 0x9B, CHR 0x8C,
     CHR 0xED, CHR 0x81, CHR 0xAC, CHR 0x20, CHR 0xEC, CHR 0x97, CHR 0xB0, CHR 0xEA, CHR 0xB2,
     CHR 0xB0, CHR 0xEC, CHR 0x9D, CHR 0x84, CHR 0x20, CHR 0xED, CHR 0x99, CHR 0x95, CHR 0xEC,
     CHR 0x9D, CHR 0xB8, CHR 0xED, CHR 0x95, CHR 0xB4, CHR 0x20, CHR 0xEC, CHR 0xA3, CHR 0xBC,
     CHR 0xEC, CHR 0x84, CHR 0xB8, CHR 0xEC, CHR 0x9A, CHR 0x94, CHR 0x2E]"

definition msg_setup :: string where
  "msg_setup =
    [CHR 0xEC, CHR 0x9A, CHR 0x94, CHR 0xEC, CHR 0xB2, CHR 0xAD, CHR 0x20, CHR 0xEC, CHR 0x84,
     CHR 0xA4, CHR 0xEC, CHR 0xA0, CHR 0x95, CHR 0x20, CHR 0xEC, CHR 0xA4, CHR 0x91, CHR 0x20,
     CHR 0xEC, CHR 0x98, CHR 0xA4, CHR 0xEB, CHR 0xA5, CHR 0x98, CHR 0xEA, CHR 0xB0, CHR 0x80,
     CHR 0x20, CHR 0xEB, CHR 0xB0, CHR 0x9C, CHR 0xEC, CHR 0x83, CHR 0x9D, CHR 0xED, CHR 0x96,
     CHR 0x88, CHR 0xEC, CHR 0x8A, CHR 0xB5, CHR 0xEB, CHR 0x8B, CHR 0x88, CHR 0xEB, CHR 0x8B,
     CHR 0xA4, CHR 0x2E]"

subsection \<open>The client\<close>

text \<open>The axios instance of the constructor: its defaults (lines 74 to 84).\<close>

definition empty_config :: request_config where
  "empty_config =
    \<lparr>url = None, method = None, baseURL = None, timeout = None, headers = Map.empty,
     data = NoBody, params = JUndefined, responseType = None, onUploadProgress = False,
     metadata = None\<rparr>"

definition ApiClient :: "world \<Rightarrow> request_config" where
  "ApiClient w =
    empty_config
      \<lparr>baseURL :=
         Some (case API_BASE_URL w of
                 None \<Rightarrow> ''http://localhost:3000/api''
               | Some u \<Rightarrow> if u \<noteq> [] then u else ''http://localhost:3000/api''),
       timeout := Some 10000,
       headers := [''Content-Type'' \<mapsto> ''application/json'', ''Accept'' \<mapsto> ''application/json'']\<rparr>"

text \<open>\<open>getAuthToken\<close> (lines 182 to 188): \<open>null\<close> is \<open>None\<close>.\<close>

definition getAuthToken :: "world \<Rightarrow> string option" where
  "getAuthToken w =
    (case window w of
       Some b \<Rightarrow> localStorage b ''auth_token''
     | None \<Rightarrow> None)"

text \<open>\<open>handleUnauthorized\<close> (lines 190 to 196).\<close>

definition handleUnauthorized :: "world \<Rightarrow> world" where
  "handleUnauthorized w =
    (case window w of
       Some b \<Rightarrow>
         w\<lparr>window :=
             Some (b\<lparr>localStorage := (localStorage b)(''auth_token'' := None),
                     location_href := ''/login''\<rparr>)\<rparr>
     | None \<Rightarrow> w)"

text \<open>The request interceptor (lines 103 to 114); \<open>if (token)\<close> skips \<open>null\<close> and \<open>''\<close>.\<close>

definition requestInterceptor :: "world \<Rightarrow> request_config \<Rightarrow> request_config" where
  "requestInterceptor w cfg =
    (let token = getAuthToken w;
         cfg1 = (case token of
                   Some t \<Rightarrow>
                     if t \<noteq> [] then cfg\<lparr>headers := (headers cfg)(''Authorization'' \<mapsto> ''Bearer '' @ t)\<rparr>
                     else cfg
                 | None \<Rightarrow> cfg)
     in cfg1\<lparr>metadata := Some (dateNow w)\<rparr>)"

text \<open>
  \<open>toUpperCase\<close> on the bytes of a method name: the ASCII letters are raised, every other
  byte is kept.
\<close>

definition toUpperCase :: "string \<Rightarrow> string" where
  "toUpperCase s =
    map (\<lambda>c. if 97 \<le> (of_char c :: nat) \<and> (of_char c :: nat) \<le> 122
             then char_of (of_char c - 32 :: nat) else c) s"

text \<open>
  The response interceptor's success handler (lines 122 to 130); \<open>method?.toUpperCase()\<close>
  is \<open>undefined\<close> when the config has no method.
\<close>

definition responseInterceptor :: "axios_response \<Rightarrow> world \<Rightarrow> axios_response \<times> world" where
  "responseInterceptor resp w =
    (if NODE_ENV w = Some ''development'' then
       (let started = (case metadata (resp_config resp) of Some t \<Rightarrow> t | None \<Rightarrow> 0);
            duration = dateNow w - started
        in (resp,
            w\<lparr>console := console w @
                 [\<lparr>log_method = map_option toUpperCase (method (resp_config resp)),
                   log_url = url (resp_config resp), log_duration = duration\<rparr>]\<rparr>))
     else (resp, w))"

text \<open>\<open>x || ''\<close> on an optional string.\<close>

definition or_empty :: "string option \<Rightarrow> string" where
  "or_empty u = (case u of Some s \<Rightarrow> s | None \<Rightarrow> [])"

text \<open>The response interceptor's error handler (lines 131 to 178).\<close>

definition responseErrorInterceptor :: "axios_error \<Rightarrow> world \<Rightarrow> api_error \<times> world" where
  "responseErrorInterceptor err w =
    (case response err of
       Some r \<Rightarrow>
         (let apiError =
                \<lparr>message = js_or (opt_member (resp_data r) ''message'') (JStr msg_server_error),
                 code = js_or (opt_member (resp_data r) ''code'') (JStr ''UNKNOWN_ERROR''),
                 timestamp = js_or (opt_member (resp_data r) ''timestamp'') (JStr (dateISO w)),
                 path = or_empty (url (resp_config r)),
                 details = opt_member (resp_data r) ''details''\<rparr>
          in if status r = 401 then (apiError, handleUnauthorized w)
             else if status r = 403 then (apiError\<lparr>message := JStr msg_forbidden\<rparr>, w)
             else if status r = 404 then (apiError\<lparr>message := JStr msg_not_found\<rparr>, w)
             else if status r = 500 then (apiError\<lparr>message := JStr msg_internal\<rparr>, w)
             else (apiError, w))
     | None \<Rightarrow>
         if request err then
           (\<lparr>message = JStr msg_network, code = JStr ''NETWORK_ERROR'',
             timestamp = JStr (dateISO w),
             path = or_empty (case config err of Some c \<Rightarrow> url c | None \<Rightarrow> None),
             details = JUndefined\<rparr>, w)
         else
           (\<lparr>message = JStr msg_setup, code = JStr ''REQUEST_SETUP_ERROR'',
             timestamp = JStr (dateISO w), path = [], details = JUndefined\<rparr>, w))"

text \<open>
  One request through the axios instance with both interceptors installed: the request
  interceptor, the network, then the success or the error handler of the response
  interceptor.
\<close>

definition send :: "adapter \<Rightarrow> request_config \<Rightarrow> world \<Rightarrow> (rejection + axios_response) \<times> world" where
  "send net cfg w =
    (case net (requestInterceptor w cfg) w of
       (Inr resp, w1) \<Rightarrow>
         (case responseInterceptor resp w1 of (resp', w2) \<Rightarrow> (Inr resp', w2))
     | (Inl err, w1) \<Rightarrow>
         (case responseErrorInterceptor err w1 of (e, w2) \<Rightarrow> (Inl (ApiErr e), w2)))"

text \<open>
  The config axios builds for \<open>client.get(url, config)\<close> and its siblings: the instance
  defaults, overridden by the caller's config, overridden by the method, url and body of
  the call. Header names are kept as they are written, and a caller's header replaces the
  default of the same spelling. Where axios goes on to fold together names that differ
  only in letter case, that folding belongs to the library and, like serialisation, to
  what the adapter stands for; nothing below depends on it, since the client itself
  writes the one name \<open>Authorization\<close>.
\<close>

definition first_some :: "'a option \<Rightarrow> 'a option \<Rightarrow> 'a option" where
  "first_some a b = (case a of Some x \<Rightarrow> Some x | None \<Rightarrow> b)"

definition mergeConfig ::
  "request_config \<Rightarrow> string \<Rightarrow> string \<Rightarrow> body \<Rightarrow> request_config option \<Rightarrow> request_config" where
  "mergeConfig defaults m u d c =
    (let cfg = (case c of Some x \<Rightarrow> x | None \<Rightarrow> empty_config)
     in \<lparr>url = Some u, method = Some m,
         baseURL = first_some (baseURL cfg) (baseURL defaults),
         timeout = first_some (timeout cfg) (timeout defaults),
         headers = headers defaults ++ headers cfg,
         data = d,
         params = params cfg,
         responseType = first_some (responseType cfg) (responseType defaults),
         onUploadProgress = onUploadProgress cfg,
         metadata = first_some (metadata cfg) (metadata defaults)\<rparr>)"

definition config_data :: "request_config option \<Rightarrow> body" where
  "config_data c = (case c of Some x \<Rightarrow> data x | None \<Rightarrow> NoBody)"

text \<open>\<open>return response.data.data\<close>, the last line of every request method.\<close>

definition unwrap ::
  "(rejection + axios_response) \<times> world \<Rightarrow> (rejection + jsval) \<times> world" where
  "unwrap r =
    (case r of
       (Inl e, w) \<Rightarrow> (Inl e, w)
     | (Inr resp, w) \<Rightarrow>
         (case member (resp_data resp) ''data'' of
            Inl t \<Rightarrow> (Inl (Thrown t), w)
          | Inr v \<Rightarrow> (Inr v, w)))"

text \<open>The request methods (lines 221 to 341).\<close>

definition get ::
  "adapter \<Rightarrow> request_config \<Rightarrow> string \<Rightarrow> request_config option \<Rightarrow> world
     \<Rightarrow> (rejection + jsval) \<times> world" where
  "get net client u c w = unwrap (send net (mergeConfig client ''get'' u (config_data c) c) w)"






text \<open>\<open>healthCheck\<close> (lines 383 to 385).\<close>

definition healthCheck ::
  "adapter \<Rightarrow> request_config \<Rightarrow> world \<Rightarrow> (rejection + jsval) \<times> world" where
  "healthCheck net client w = get net client ''/health'' None w"

section \<open>The hybrid recommendation engine (spec sections 3 to 8)\<close>

text \<open>
  The engine's code is not among the sources; the transport client above is all there is.
  The definitions of this section follow the words of the specification, and each says
  which part it stands for. Scores are exact rationals where the specification has
  floating-point values.
\<close>

subsection \<open>Query fingerprint (section 4.4)\<close>

text \<open>
  Modelled from the spec: the case-folding step of the query fingerprint (the engine's
  normaliser is missing). ASCII letters are folded; other bytes have no case.
\<close>

definition to_lower :: "char \<Rightarrow> char" where
  "to_lower c =
    (if 65 \<le> (of_char c :: nat) \<and> (of_char c :: nat) \<le> 90 then char_of (of_char c + 32 :: nat) else c)"

definition case_fold :: "string \<Rightarrow> string" where
  "case_fold q = map to_lower q"

definition is_space :: "char \<Rightarrow> bool" where
  "is_space c = (c = CHR '' '' \<or> c = CHR 0x09 \<or> c = CHR 0x0A \<or> c = CHR 0x0D)"

text \<open>
  Modelled from the spec: whitespace-collapsing (the engine's tokeniser is missing). A run
  of whitespace of any length separates two tokens; leading and trailing whitespace
  yields no token.
\<close>

definition tokens :: "string \<Rightarrow> string list" where
  "tokens q =
    filter (\<lambda>t. t \<noteq> [])
      (foldr (\<lambda>c acc. if is_space c then [] # acc
                       else (case acc of [] \<Rightarrow> [[c]] | t # ts \<Rightarrow> (c # t) # ts)) q [[]])"

text \<open>
  Modelled from the spec: "case-folding, whitespace-collapsing, and stable-sorting the
  query's token set" (the canonical form that is hashed).
\<close>

definition canonical_tokens :: "string \<Rightarrow> string list" where
  "canonical_tokens q = sort (remdups (tokens (case_fold q)))"

type_synonym fingerprint = string

text \<open>
  Modelled from the spec: the query fingerprint, the hash of the canonical form. The hash
  function itself is a parameter.
\<close>

definition query_fingerprint :: "(string list \<Rightarrow> fingerprint) \<Rightarrow> string \<Rightarrow> fingerprint" where
  "query_fingerprint h q = h (canonical_tokens q)"

subsection \<open>Data model (section 3) and errors (section 7)\<close>

text \<open>
  Modelled from the spec: Candidate Result, with the score breakdown of section 9. The
  rank of a candidate is its position in the returned sequence.
\<close>

record candidate =
  entry_code :: string
  lexical :: rat
  semantic :: rat
  blended :: rat

text \<open>Modelled from the spec: the error taxonomy of section 7.\<close>

datatype error_kind =
    IngestError
  | CorpusIntegrityError
  | NotFoundError
  | InvalidQueryError
  | InvalidConfigError
  | CacheWriteError

text \<open>
  Modelled from the spec: Cache Entry, "serialized ranked result list plus a timestamp",
  keyed by (corpus version fingerprint, query fingerprint, engine configuration
  fingerprint).
\<close>

record cache_entry =
  results :: "candidate list"
  written_at :: int

type_synonym cache_key = "fingerprint \<times> fingerprint \<times> fingerprint"

text \<open>
  Modelled from the spec: the persisted Query Cache. \<open>storage_fault\<close> stands for an
  irrecoverable storage fault (disk full, permission) at the time of a write.
\<close>

record query_cache =
  entries :: "cache_key \<rightharpoonup> cache_entry"
  storage_fault :: bool

text \<open>Modelled from the spec: \<open>get(key) -> Optional<Value>\<close> of section 4.4.\<close>

definition cache_get :: "query_cache \<Rightarrow> cache_key \<Rightarrow> cache_entry option" where
  "cache_get c key = entries c key"

text \<open>
  Modelled from the spec: \<open>put(key, value)\<close> of section 4.4, which fails with
  CacheWriteError only on a storage fault.
\<close>

definition cache_put :: "query_cache \<Rightarrow> cache_key \<Rightarrow> cache_entry \<Rightarrow> error_kind + query_cache" where
  "cache_put c key v =
    (if storage_fault c then Inl CacheWriteError
     else Inr (c\<lparr>entries := (entries c)(key \<mapsto> v)\<rparr>))"

subsection \<open>Hybrid Ranker (section 4.5)\<close>

type_synonym index = "string \<Rightarrow> (string \<times> rat) list"

text \<open>
  Modelled from the spec: what the Hybrid Ranker is constructed with. The two indices are
  capabilities that answer a query with scored entry codes; the semantic one is absent
  when it reports itself disabled. \<open>flat_score\<close> is the normalised score given when all
  scores of a signal are equal, about which the specification is silent.
\<close>

record engine =
  corpus_fp :: fingerprint
  config_fp :: "rat \<Rightarrow> fingerprint"
  hash :: "string list \<Rightarrow> fingerprint"
  lexical_index :: index
  semantic_index :: "index option"
  default_alpha :: rat
  flat_score :: rat

text \<open>
  Modelled from the spec: "normalize each signal's scores independently to [0,1] via
  min-max over the returned candidate set".
\<close>

definition min_max :: "rat \<Rightarrow> (string \<times> rat) list \<Rightarrow> (string \<times> rat) list" where
  "min_max flat xs =
    (case xs of
       [] \<Rightarrow> []
     | x # rest \<Rightarrow>
         (let lo = fold min (map snd rest) (snd x);
              hi = fold max (map snd rest) (snd x)
          in map (\<lambda>(c, s). (c, if hi = lo then flat else (s - lo) / (hi - lo))) xs))"

text \<open>
  Modelled from the spec: "treating a missing signal [...] as score 0 for that signal
  rather than excluding the entry".
\<close>

definition score_of :: "(string \<times> rat) list \<Rightarrow> string \<Rightarrow> rat" where
  "score_of xs c = (case map_of xs c of Some s \<Rightarrow> s | None \<Rightarrow> 0)"

definition semantic_scores :: "engine \<Rightarrow> string \<Rightarrow> (string \<times> rat) list" where
  "semantic_scores E q = (case semantic_index E of Some ix \<Rightarrow> ix q | None \<Rightarrow> [])"

text \<open>
  Modelled from the spec: the blend weight in effect. With the semantic index disabled
  the ranker falls back to lexical-only scoring, "\<alpha> effectively forced to 1" (sections
  4.3 and 8).
\<close>

definition effective_alpha :: "engine \<Rightarrow> rat \<Rightarrow> rat" where
  "effective_alpha E a = (case semantic_index E of Some _ \<Rightarrow> a | None \<Rightarrow> 1)"

text \<open>Modelled from the spec: the union of the two candidate sets, each entry once.\<close>

definition candidate_codes :: "engine \<Rightarrow> string \<Rightarrow> string list" where
  "candidate_codes E q = remdups (map fst (lexical_index E q) @ map fst (semantic_scores E q))"

text \<open>
  Modelled from the spec: "blended score = \<alpha> * lexicalNorm + (1 - \<alpha>) * semanticNorm".
\<close>

definition blend :: "engine \<Rightarrow> string \<Rightarrow> rat \<Rightarrow> candidate list" where
  "blend E q a =
    (let lex = min_max (flat_score E) (lexical_index E q);
         sem = min_max (flat_score E) (semantic_scores E q);
         w = effective_alpha E a
     in map (\<lambda>c. \<lparr>entry_code = c, lexical = score_of lex c, semantic = score_of sem c,
                  blended = w * score_of lex c + (1 - w) * score_of sem c\<rparr>)
            (candidate_codes E q))"

text \<open>
  Modelled from the spec: "sort descending by blended score, tie-break by code ascending".
\<close>

definition ranking :: "engine \<Rightarrow> string \<Rightarrow> rat \<Rightarrow> candidate list" where
  "ranking E q a = sort_key (\<lambda>c. (- blended c, entry_code c)) (blend E q a)"

definition key_of :: "engine \<Rightarrow> string \<Rightarrow> rat \<Rightarrow> cache_key" where
  "key_of E q a = (corpus_fp E, query_fingerprint (hash E) q, config_fp E a)"

text \<open>
  Modelled from the spec: the optional weighting override of a Query; without it the
  configured default applies.
\<close>

definition chosen_alpha :: "engine \<Rightarrow> rat option \<Rightarrow> rat" where
  "chosen_alpha E weights = (case weights of Some x \<Rightarrow> x | None \<Rightarrow> default_alpha E)"

text \<open>
  Modelled from the spec: what \<open>recommend\<close> hands back besides the ranked sequence: the
  cache as it leaves it, and the errors it logged and swallowed.
\<close>

record outcome =
  ranked :: "candidate list"
  cache_after :: "query_cache option"
  logged :: "error_kind list"

text \<open>
  Modelled from the spec: \<open>recommend(query, k, weights?)\<close> of section 4.5. The cache
  handle is passed in (section 9) and is \<open>None\<close> when there is no cache at all. The blend
  weight and k are validated first. On a hit the cached results are re-truncated to k.
  On a miss the ranking is computed and truncated to k, and the truncated list is
  written through, in the order section 4.5 gives the steps; a failed write is logged and
  swallowed.
\<close>

definition recommend ::
  "engine \<Rightarrow> query_cache option \<Rightarrow> int \<Rightarrow> string \<Rightarrow> int \<Rightarrow> rat option \<Rightarrow> error_kind + outcome" where
  "recommend E cache now q k weights =
    (let a = chosen_alpha E weights
     in if a < 0 \<or> 1 < a then Inl InvalidConfigError
        else if k < 1 then Inl InvalidQueryError
        else
          (case cache of
             None \<Rightarrow>
               Inr \<lparr>ranked = take (nat k) (ranking E q a), cache_after = None, logged = []\<rparr>
           | Some c \<Rightarrow>
               (case cache_get c (key_of E q a) of
                  Some e \<Rightarrow>
                    Inr \<lparr>ranked = take (nat k) (results e), cache_after = Some c, logged = []\<rparr>
                | None \<Rightarrow>
                    (let r = take (nat k) (ranking E q a)
                     in case cache_put c (key_of E q a) \<lparr>results = r, written_at = now\<rparr> of
                          Inr c' \<Rightarrow> Inr \<lparr>ranked = r, cache_after = Some c', logged = []\<rparr>
                        | Inl err \<Rightarrow> Inr \<lparr>ranked = r, cache_after = Some c, logged = [err]\<rparr>))))"

subsection \<open>Augmentation Stage (section 4.6)\<close>

text \<open>Modelled from the spec: the ways the external reasoning capability fails.\<close>

datatype capability_failure = Timeout | Quota | Network

text \<open>
  Modelled from the spec: the injected capability
  \<open>augment(query, candidates) -> reordered/annotated candidates\<close>, which honours the
  caller's timeout and so always answers, with a failure or with candidates.
\<close>

type_synonym augmenter = "string \<Rightarrow> candidate list \<Rightarrow> capability_failure + candidate list"

text \<open>
  Modelled from the spec: the response of the augmented pipeline, tagged as augmented or
  not.
\<close>

record response_out =
  candidates :: "candidate list"
  augmented :: bool
  cache_out :: "query_cache option"
  logged_out :: "error_kind list"

text \<open>
  Modelled from the spec: the Augmentation Stage. A failure of the capability, or its
  absence, passes the ranked list through, tagged as not augmented.
\<close>

definition augmentation_stage ::
  "augmenter option \<Rightarrow> string \<Rightarrow> candidate list \<Rightarrow> candidate list \<times> bool" where
  "augmentation_stage aug q cs =
    (case aug of
       None \<Rightarrow> (cs, False)
     | Some f \<Rightarrow> (case f q cs of Inl failure \<Rightarrow> (cs, False) | Inr cs' \<Rightarrow> (cs', True)))"

text \<open>
  Modelled from the spec: the control flow of section 2, the Hybrid Ranker followed by
  the optional Augmentation Stage. The cache is the one \<open>recommend\<close> left.
\<close>

definition recommend_augmented ::
  "engine \<Rightarrow> augmenter option \<Rightarrow> query_cache option \<Rightarrow> int \<Rightarrow> string \<Rightarrow> int \<Rightarrow> rat option
     \<Rightarrow> error_kind + response_out" where
  "recommend_augmented E aug cache now q k weights =
    (case recommend E cache now q k weights of
       Inl err \<Rightarrow> Inl err
     | Inr out \<Rightarrow>
         (case augmentation_stage aug q (ranked out) of
            (cs, tag) \<Rightarrow>
              Inr \<lparr>candidates = cs, augmented = tag, cache_out = cache_after out,
                   logged_out = logged out\<rparr>))"

subsection \<open>Cache states\<close>

text \<open>The entry a call finds in the cache, if there is a cache and it holds one.\<close>

definition cached :: "engine \<Rightarrow> query_cache option \<Rightarrow> string \<Rightarrow> rat \<Rightarrow> cache_entry option" where
  "cached E cache q a =
    (case cache of
       None \<Rightarrow> None
     | Some c \<Rightarrow> cache_get c (key_of E q a))"

text \<open>The cache without the entries created under another corpus fingerprint.\<close>

definition live_only :: "engine \<Rightarrow> query_cache \<Rightarrow> query_cache" where
  "live_only E c =
    c\<lparr>entries := (\<lambda>key. if fst key = corpus_fp E then entries c key else None)\<rparr>"

text \<open>The ranked sequence of a result, or its error.\<close>

definition ranked_of :: "error_kind + outcome \<Rightarrow> error_kind + candidate list" where
  "ranked_of r = (case r of Inl err \<Rightarrow> Inl err | Inr out \<Rightarrow> Inr (ranked out))"

text \<open>
  The order of a returned sequence: strictly descending by blended score, by code ascending
  among equal scores.
\<close>

definition ranked_before :: "candidate \<Rightarrow> candidate \<Rightarrow> bool" where
  "ranked_before x y =
    (blended y < blended x \<or> (blended x = blended y \<and> entry_code x < entry_code y))"


section \<open>Example inputs\<close>

text \<open>A browser session holding a token, and a server-side render without \<open>window\<close>.\<close>

definition browser_world :: world where
  "browser_world =
    \<lparr>window = Some \<lparr>localStorage = [''auth_token'' \<mapsto> ''abc''], location_href = ''/orders''\<rparr>,
     NODE_ENV = Some ''production'', API_BASE_URL = None, dateNow = 1000,
     dateISO = ''2024-01-01T00:00:00.000Z'', console = []\<rparr>"

definition server_world :: world where
  "server_world =
    \<lparr>window = None, NODE_ENV = Some ''production'', API_BASE_URL = None, dateNow = 1000,
     dateISO = ''2024-01-01T00:00:00.000Z'', console = []\<rparr>"


text \<open>A network that answers with the given status and no body.\<close>

definition net_status :: "int \<Rightarrow> adapter" where
  "net_status st cfg w =
    (Inl \<lparr>response = Some \<lparr>status = st, resp_data = JUndefined, resp_config = cfg\<rparr>,
          request = True, config = Some cfg\<rparr>, w)"

text \<open>An error whose response has the given status and no body.\<close>

definition status_error :: "int \<Rightarrow> axios_error" where
  "status_error st =
    \<lparr>response = Some \<lparr>status = st, resp_data = JUndefined, resp_config = empty_config\<rparr>,
     request = True, config = None\<rparr>"

text \<open>The two-entry corpus of section 8, with a lexical index that knows one query.\<close>

definition horse_lexical :: index where
  "horse_lexical q =
    (if canonical_tokens q = [''breeding'', ''for'', ''horse'']
     then [(''0101.21'', 3 / 5), (''0101.29'', 1 / 5)] else [])"

definition horse_engine :: engine where
  "horse_engine =
    \<lparr>corpus_fp = ''corpus-v1'',
     config_fp = (\<lambda>a. if a = 1 then ''lexical-only'' else ''hybrid''),
     hash = concat, lexical_index = horse_lexical, semantic_index = None,
     default_alpha = 1 / 2, flat_score = 1\<rparr>"

definition horse_ranking :: "candidate list" where
  "horse_ranking =
    [\<lparr>entry_code = ''0101.21'', lexical = 1, semantic = 0, blended = 1\<rparr>,
     \<lparr>entry_code = ''0101.29'', lexical = 0, semantic = 0, blended = 0\<rparr>]"



definition hybrid_ranking :: "candidate list" where
  "hybrid_ranking =
    [\<lparr>entry_code = ''0101.21'', lexical = 1, semantic = 1 / 2, blended = 3 / 4\<rparr>,
     \<lparr>entry_code = ''0101.29'', lexical = 0, semantic = 1, blended = 1 / 2\<rparr>,
     \<lparr>entry_code = ''0102.21'', lexical = 0, semantic = 1, blended = 1 / 2\<rparr>,
     \<lparr>entry_code = ''0103.10'', lexical = 0, semantic = 0, blended = 0\<rparr>]"





text \<open>A cache that holds the ranking of the query, written at time 5.\<close>

definition horse_cache :: query_cache where
  "horse_cache =
    \<lparr>entries = [(''corpus-v1'', ''breedingforhorse'', ''hybrid'') \<mapsto>
                  \<lparr>results = horse_ranking, written_at = 5\<rparr>],
     storage_fault = False\<rparr>"

text \<open>A cache left by an older corpus, holding a ranking in the opposite order.\<close>

definition stale_cache :: query_cache where
  "stale_cache =
    \<lparr>entries = [(''corpus-v0'', ''breedingforhorse'', ''hybrid'') \<mapsto>
                  \<lparr>results = rev horse_ranking, written_at = 1\<rparr>],
     storage_fault = False\<rparr>"


definition timing_out :: augmenter where
  "timing_out q cs = Inl Timeout"

section \<open>Properties of the transport client\<close>




lemma call_ok:
  assumes "net (requestInterceptor w cfg) w = (Inr resp, w1)"
  shows "fst (unwrap (send net cfg w)) =
           (case member (resp_data resp) ''data'' of Inl t \<Rightarrow> Inl (Thrown t) | Inr v \<Rightarrow> Inr v)"
  using assms
  by (auto simp: unwrap_def send_def responseInterceptor_def Let_def split: sum.splits)









lemma js_or_defined: "b \<noteq> JUndefined \<Longrightarrow> js_or a b \<noteq> JUndefined"
  by (cases a) (auto simp: js_or_def)

lemma js_or_falsy: "\<not> truthy a \<Longrightarrow> js_or a b = b"
  by (simp add: js_or_def)

lemma unwrap_Inl: "unwrap (Inl e, w) = (Inl e, w)"
  by (simp add: unwrap_def)

lemma send_Inl:
  "net (requestInterceptor w cfg) w = (Inl err, w1) \<Longrightarrow>
     send net cfg w =
       (Inl (ApiErr (fst (responseErrorInterceptor err w1))), snd (responseErrorInterceptor err w1))"
  by (simp add: send_def split: prod.splits)

lemma error_fields_defined:
  "message (fst (responseErrorInterceptor err w)) \<noteq> JUndefined
   \<and> code (fst (responseErrorInterceptor err w)) \<noteq> JUndefined
   \<and> timestamp (fst (responseErrorInterceptor err w)) \<noteq> JUndefined"
  by (simp add: responseErrorInterceptor_def Let_def js_or_defined split: option.splits)

lemma error_server_fields:
  assumes "response err = Some r"
  shows "code (fst (responseErrorInterceptor err w))
           = js_or (opt_member (resp_data r) ''code'') (JStr ''UNKNOWN_ERROR'')"
    and "path (fst (responseErrorInterceptor err w)) = or_empty (url (resp_config r))"
    and "status r \<noteq> 403 \<Longrightarrow> status r \<noteq> 404 \<Longrightarrow> status r \<noteq> 500 \<Longrightarrow>
           message (fst (responseErrorInterceptor err w))
             = js_or (opt_member (resp_data r) ''message'') (JStr msg_server_error)"
  using assms by (simp_all add: responseErrorInterceptor_def Let_def)

lemma error_no_response:
  assumes "response err = None"
  shows "code (fst (responseErrorInterceptor err w))
           = JStr (if request err then ''NETWORK_ERROR'' else ''REQUEST_SETUP_ERROR'')"
  using assms by (simp add: responseErrorInterceptor_def)

text \<open>
  C9, as the code has it. When the network fails, the call rejects with an ApiError whose
  message, code and timestamp are defined and whose path is a string. When the server
  answered, a missing (or otherwise falsy) code becomes \<open>UNKNOWN_ERROR\<close>, and a missing
  message becomes the default text unless the status is 403, 404 or 500, whose fixed texts
  take its place. Without a response the code is \<open>NETWORK_ERROR\<close> when a request went
  out and \<open>REQUEST_SETUP_ERROR\<close> otherwise.
\<close>

theorem failed_request_rejects_with_api_error:
  assumes "net (requestInterceptor w cfg) w = (Inl err, w1)"
  shows "\<exists>e w2. unwrap (send net cfg w) = (Inl (ApiErr e), w2)
      \<and> message e \<noteq> JUndefined \<and> code e \<noteq> JUndefined \<and> timestamp e \<noteq> JUndefined
      \<and> (case response err of
            Some r \<Rightarrow>
              path e = or_empty (url (resp_config r))
              \<and> (\<not> truthy (opt_member (resp_data r) ''code'') \<longrightarrow> code e = JStr ''UNKNOWN_ERROR'')
              \<and> (\<not> truthy (opt_member (resp_data r) ''message'')
                   \<and> status r \<noteq> 403 \<and> status r \<noteq> 404 \<and> status r \<noteq> 500
                 \<longrightarrow> message e = JStr msg_server_error)
          | None \<Rightarrow>
              code e = JStr (if request err then ''NETWORK_ERROR'' else ''REQUEST_SETUP_ERROR''))"
proof -
  let ?e = "fst (responseErrorInterceptor err w1)"
  have "unwrap (send net cfg w) = (Inl (ApiErr ?e), snd (responseErrorInterceptor err w1))"
    using assms by (simp add: send_Inl unwrap_Inl)
  moreover have "message ?e \<noteq> JUndefined \<and> code ?e \<noteq> JUndefined \<and> timestamp ?e \<noteq> JUndefined"
    by (rule error_fields_defined)
  moreover have "case response err of
            Some r \<Rightarrow>
              path ?e = or_empty (url (resp_config r))
              \<and> (\<not> truthy (opt_member (resp_data r) ''code'') \<longrightarrow> code ?e = JStr ''UNKNOWN_ERROR'')
              \<and> (\<not> truthy (opt_member (resp_data r) ''message'')
                   \<and> status r \<noteq> 403 \<and> status r \<noteq> 404 \<and> status r \<noteq> 500
                 \<longrightarrow> message ?e = JStr msg_server_error)
          | None \<Rightarrow>
              code ?e = JStr (if request err then ''NETWORK_ERROR'' else ''REQUEST_SETUP_ERROR'')"
  proof (cases "response err")
    case None
    then show ?thesis by (simp add: error_no_response)
  next
    case (Some r)
    then show ?thesis by (simp add: error_server_fields js_or_falsy)
  qed
  ultimately show ?thesis by blast
qed

lemma get_net_status:
  "get (net_status st) client u None server_world =
     (Inl (ApiErr (fst (responseErrorInterceptor
        \<lparr>response = Some \<lparr>status = st, resp_data = JUndefined,
                           resp_config = requestInterceptor server_world
                                           (mergeConfig client ''get'' u NoBody None)\<rparr>,
         request = True,
         config = Some (requestInterceptor server_world (mergeConfig client ''get'' u NoBody None))\<rparr>
        server_world))),
      snd (responseErrorInterceptor
        \<lparr>response = Some \<lparr>status = st, resp_data = JUndefined,
                           resp_config = requestInterceptor server_world
                                           (mergeConfig client ''get'' u NoBody None)\<rparr>,
         request = True,
         config = Some (requestInterceptor server_world (mergeConfig client ''get'' u NoBody None))\<rparr>
        server_world))"
  by (simp add: get_def config_data_def send_def net_status_def unwrap_def split: prod.splits)

theorem failed_request_rejects_with_api_error_witness:
  "net_status 502 (requestInterceptor server_world
       (mergeConfig (ApiClient server_world) ''get'' ''/orders'' NoBody None)) server_world
     = (Inl \<lparr>response = Some \<lparr>status = 502, resp_data = JUndefined,
                               resp_config = requestInterceptor server_world
                                 (mergeConfig (ApiClient server_world) ''get'' ''/orders'' NoBody None)\<rparr>,
             request = True,
             config = Some (requestInterceptor server_world
                              (mergeConfig (ApiClient server_world) ''get'' ''/orders'' NoBody None))\<rparr>,
        server_world)
   \<and> (\<exists>e w2. get (net_status 502) (ApiClient server_world) ''/orders'' None server_world
                 = (Inl (ApiErr e), w2)
        \<and> message e = JStr msg_server_error \<and> code e = JStr ''UNKNOWN_ERROR''
        \<and> timestamp e \<noteq> JUndefined \<and> path e = ''/orders'')"
proof -
  let ?cfg = "mergeConfig (ApiClient server_world) ''get'' ''/orders'' NoBody None"
  let ?err = "\<lparr>response = Some \<lparr>status = 502, resp_data = JUndefined,
                                  resp_config = requestInterceptor server_world ?cfg\<rparr>,
               request = True, config = Some (requestInterceptor server_world ?cfg)\<rparr>"
  have h: "net_status 502 (requestInterceptor server_world ?cfg) server_world
             = (Inl ?err, server_world)"
    by (simp add: net_status_def)
  have u: "url (requestInterceptor server_world ?cfg) = Some ''/orders''"
    by (simp add: requestInterceptor_def mergeConfig_def Let_def split: option.splits)
  from failed_request_rejects_with_api_error
         [where net = "net_status 502" and w = server_world and cfg = ?cfg, OF h]
  obtain e w2 where e: "unwrap (send (net_status 502) ?cfg server_world) = (Inl (ApiErr e), w2)"
      "timestamp e \<noteq> JUndefined" "path e = ''/orders''" "code e = JStr ''UNKNOWN_ERROR''"
      "message e = JStr msg_server_error"
    by (auto simp: u or_empty_def)
  have "get (net_status 502) (ApiClient server_world) ''/orders'' None server_world
          = unwrap (send (net_status 502) ?cfg server_world)"
    by (simp add: get_def config_data_def)
  with e h show ?thesis by auto
qed

text \<open>
  C9 as stated fails: a 500 answer without a body is rejected with the fixed 500 text as
  its message, not with the default text.
\<close>

theorem missing_message_default_counterexample:
  "fst (get (net_status 500) (ApiClient server_world) ''/orders'' None server_world)
     = Inl (ApiErr \<lparr>message = JStr msg_internal, code = JStr ''UNKNOWN_ERROR'',
                    timestamp = JStr ''2024-01-01T00:00:00.000Z'', path = ''/orders'',
                    details = JUndefined\<rparr>)
   \<and> msg_internal \<noteq> msg_server_error"
  by (subst get_net_status)
     (simp add: responseErrorInterceptor_def js_or_def or_empty_def requestInterceptor_def
        mergeConfig_def getAuthToken_def server_world_def Let_def msg_internal_def
        msg_server_error_def)

lemma requestInterceptor_headers:
  "headers (requestInterceptor w cfg) =
     (case getAuthToken w of
        Some t \<Rightarrow> if t \<noteq> [] then (headers cfg)(''Authorization'' \<mapsto> ''Bearer '' @ t) else headers cfg
      | None \<Rightarrow> headers cfg)"
  by (simp add: requestInterceptor_def Let_def split: option.splits)

lemma requestInterceptor_target:
  "url (requestInterceptor w cfg) = url cfg \<and> method (requestInterceptor w cfg) = method cfg
   \<and> data (requestInterceptor w cfg) = data cfg"
  by (simp add: requestInterceptor_def Let_def split: option.splits)

lemma handleUnauthorized_browser:
  "window w = Some b \<Longrightarrow>
     window (handleUnauthorized w) =
       Some \<lparr>localStorage = (localStorage b)(''auth_token'' := None), location_href = ''/login''\<rparr>"
  by (simp add: handleUnauthorized_def)

lemma handleUnauthorized_no_window: "window w = None \<Longrightarrow> handleUnauthorized w = w"
  by (simp add: handleUnauthorized_def)

lemma error_status_world:
  "response err = Some r \<Longrightarrow>
     snd (responseErrorInterceptor err w) = (if status r = 401 then handleUnauthorized w else w)"
  by (simp add: responseErrorInterceptor_def Let_def)

lemma error_status_message:
  assumes "response err = Some r"
  shows "status r = 403 \<Longrightarrow> message (fst (responseErrorInterceptor err w)) = JStr msg_forbidden"
    and "status r = 404 \<Longrightarrow> message (fst (responseErrorInterceptor err w)) = JStr msg_not_found"
    and "status r = 500 \<Longrightarrow> message (fst (responseErrorInterceptor err w)) = JStr msg_internal"
  using assms by (simp_all add: responseErrorInterceptor_def Let_def)

text \<open>
  C8, as the code has it. The request interceptor sets the Authorization header to
  \<open>Bearer <token>\<close> when \<open>getAuthToken\<close> yields a non-empty token and leaves the headers
  alone otherwise. On an error response, status 401 runs \<open>handleUnauthorized\<close>, which in a
  browser removes the stored token and sets the location to \<open>/login\<close>, and without
  \<open>window\<close> changes nothing; statuses 403, 404 and 500 replace the message with their
  fixed texts; no other status touches the environment. \<open>healthCheck\<close> sends a GET of
  \<open>/health\<close>.
\<close>

theorem transport_client_auth_and_error_mapping:
  "(case getAuthToken w of
      Some t \<Rightarrow>
        if t \<noteq> [] then headers (requestInterceptor w cfg) ''Authorization'' = Some (''Bearer '' @ t)
        else headers (requestInterceptor w cfg) = headers cfg
    | None \<Rightarrow> headers (requestInterceptor w cfg) = headers cfg)
   \<and> (response err = Some r \<longrightarrow>
        (status r = 401 \<longrightarrow> snd (responseErrorInterceptor err w) = handleUnauthorized w)
        \<and> (status r \<noteq> 401 \<longrightarrow> snd (responseErrorInterceptor err w) = w)
        \<and> (status r = 403 \<longrightarrow> message (fst (responseErrorInterceptor err w)) = JStr msg_forbidden)
        \<and> (status r = 404 \<longrightarrow> message (fst (responseErrorInterceptor err w)) = JStr msg_not_found)
        \<and> (status r = 500 \<longrightarrow> message (fst (responseErrorInterceptor err w)) = JStr msg_internal))
   \<and> (case window w of
        Some b \<Rightarrow>
          window (handleUnauthorized w) =
            Some \<lparr>localStorage = (localStorage b)(''auth_token'' := None), location_href = ''/login''\<rparr>
          \<and> getAuthToken (handleUnauthorized w) = None
      | None \<Rightarrow> handleUnauthorized w = w)
   \<and> healthCheck net client w
        = unwrap (send net (mergeConfig client ''get'' ''/health'' NoBody None) w)
   \<and> method (requestInterceptor w (mergeConfig client ''get'' ''/health'' NoBody None)) = Some ''get''
   \<and> url (requestInterceptor w (mergeConfig client ''get'' ''/health'' NoBody None)) = Some ''/health''"
proof (intro conjI)
  show "case getAuthToken w of
      Some t \<Rightarrow>
        if t \<noteq> [] then headers (requestInterceptor w cfg) ''Authorization'' = Some (''Bearer '' @ t)
        else headers (requestInterceptor w cfg) = headers cfg
    | None \<Rightarrow> headers (requestInterceptor w cfg) = headers cfg"
    by (simp add: requestInterceptor_headers split: option.splits)
  show "response err = Some r \<longrightarrow>
        (status r = 401 \<longrightarrow> snd (responseErrorInterceptor err w) = handleUnauthorized w)
        \<and> (status r \<noteq> 401 \<longrightarrow> snd (responseErrorInterceptor err w) = w)
        \<and> (status r = 403 \<longrightarrow> message (fst (responseErrorInterceptor err w)) = JStr msg_forbidden)
        \<and> (status r = 404 \<longrightarrow> message (fst (responseErrorInterceptor err w)) = JStr msg_not_found)
        \<and> (status r = 500 \<longrightarrow> message (fst (responseErrorInterceptor err w)) = JStr msg_internal)"
    by (simp add: error_status_world error_status_message)
  show "case window w of
        Some b \<Rightarrow>
          window (handleUnauthorized w) =
            Some \<lparr>localStorage = (localStorage b)(''auth_token'' := None), location_href = ''/login''\<rparr>
          \<and> getAuthToken (handleUnauthorized w) = None
      | None \<Rightarrow> handleUnauthorized w = w"
    by (simp add: handleUnauthorized_browser handleUnauthorized_no_window getAuthToken_def
        split: option.splits)
  show "healthCheck net client w
        = unwrap (send net (mergeConfig client ''get'' ''/health'' NoBody None) w)"
    by (simp add: healthCheck_def get_def config_data_def)
  show "method (requestInterceptor w (mergeConfig client ''get'' ''/health'' NoBody None)) = Some ''get''"
    by (simp add: requestInterceptor_target mergeConfig_def)
  show "url (requestInterceptor w (mergeConfig client ''get'' ''/health'' NoBody None)) = Some ''/health''"
    by (simp add: requestInterceptor_target mergeConfig_def)
qed

theorem transport_client_auth_and_error_mapping_witness:
  "getAuthToken browser_world = Some ''abc''
   \<and> headers (requestInterceptor browser_world (ApiClient browser_world)) ''Authorization''
       = Some ''Bearer abc''
   \<and> snd (responseErrorInterceptor (status_error 401) browser_world)
       = handleUnauthorized browser_world
   \<and> window (handleUnauthorized browser_world)
       = Some \<lparr>localStorage = Map.empty, location_href = ''/login''\<rparr>
   \<and> getAuthToken (handleUnauthorized browser_world) = None
   \<and> message (fst (responseErrorInterceptor (status_error 403) browser_world)) = JStr msg_forbidden
   \<and> message (fst (responseErrorInterceptor (status_error 404) browser_world)) = JStr msg_not_found
   \<and> message (fst (responseErrorInterceptor (status_error 500) browser_world)) = JStr msg_internal
   \<and> snd (responseErrorInterceptor (status_error 500) browser_world) = browser_world
   \<and> getAuthToken server_world = None
   \<and> headers (requestInterceptor server_world (ApiClient server_world))
       = headers (ApiClient server_world)
   \<and> handleUnauthorized server_world = server_world"
proof -
  have t: "getAuthToken browser_world = Some ''abc''" "getAuthToken server_world = None"
    by (simp_all add: getAuthToken_def browser_world_def server_world_def)
  have b: "window browser_world
             = Some \<lparr>localStorage = [''auth_token'' \<mapsto> ''abc''], location_href = ''/orders''\<rparr>"
      "window server_world = None"
    by (simp_all add: browser_world_def server_world_def)
  have r: "response (status_error st)
             = Some \<lparr>status = st, resp_data = JUndefined, resp_config = empty_config\<rparr>" for st
    by (simp add: status_error_def)
  note T = transport_client_auth_and_error_mapping
  from T [where w = browser_world and cfg = "ApiClient browser_world" and err = "status_error 401"
            and r = "\<lparr>status = 401, resp_data = JUndefined, resp_config = empty_config\<rparr>"]
      T [where w = browser_world and err = "status_error 403"
            and r = "\<lparr>status = 403, resp_data = JUndefined, resp_config = empty_config\<rparr>"]
      T [where w = browser_world and err = "status_error 404"
            and r = "\<lparr>status = 404, resp_data = JUndefined, resp_config = empty_config\<rparr>"]
      T [where w = browser_world and err = "status_error 500"
            and r = "\<lparr>status = 500, resp_data = JUndefined, resp_config = empty_config\<rparr>"]
      T [where w = server_world and cfg = "ApiClient server_world"]
  show ?thesis
    by (simp add: t b r)
qed

text \<open>
  C8 as stated fails where there is no \<open>window\<close>: a 401 answer leaves the environment as it
  was, so nothing is cleared and no location is set to \<open>/login\<close>.
\<close>

theorem unauthorized_without_window_counterexample:
  "snd (get (net_status 401) (ApiClient server_world) ''/orders'' None server_world) = server_world
   \<and> window server_world = None"
  by (subst get_net_status)
     (simp add: responseErrorInterceptor_def handleUnauthorized_def server_world_def Let_def)

section \<open>Properties of the recommendation engine\<close>

subsection \<open>The ranking\<close>











subsection \<open>What \<open>recommend\<close> returns\<close>


lemma recommend_no_cache:
  assumes "0 \<le> chosen_alpha E w" "chosen_alpha E w \<le> 1" "1 \<le> k"
  shows "recommend E None now q k w =
    Inr \<lparr>ranked = take (nat k) (ranking E q (chosen_alpha E w)), cache_after = None,
         logged = []\<rparr>"
  using assms by (simp add: recommend_def Let_def)

lemma recommend_hit:
  assumes "0 \<le> chosen_alpha E w" "chosen_alpha E w \<le> 1" "1 \<le> k"
    and "cache_get c (key_of E q (chosen_alpha E w)) = Some e"
  shows "recommend E (Some c) now q k w =
    Inr \<lparr>ranked = take (nat k) (results e), cache_after = Some c, logged = []\<rparr>"
  using assms by (simp add: recommend_def Let_def)

lemma recommend_write_failed:
  assumes "0 \<le> chosen_alpha E w" "chosen_alpha E w \<le> 1" "1 \<le> k"
    and "cache_get c (key_of E q (chosen_alpha E w)) = None" and "storage_fault c"
  shows "recommend E (Some c) now q k w =
    Inr \<lparr>ranked = take (nat k) (ranking E q (chosen_alpha E w)), cache_after = Some c,
         logged = [CacheWriteError]\<rparr>"
  using assms by (simp add: recommend_def Let_def cache_put_def)

lemma recommend_written:
  assumes "0 \<le> chosen_alpha E w" "chosen_alpha E w \<le> 1" "1 \<le> k"
    and "cache_get c (key_of E q (chosen_alpha E w)) = None" and "\<not> storage_fault c"
  shows "recommend E (Some c) now q k w =
    Inr \<lparr>ranked = take (nat k) (ranking E q (chosen_alpha E w)),
         cache_after =
           Some (c\<lparr>entries := (entries c)(key_of E q (chosen_alpha E w) \<mapsto>
                   \<lparr>results = take (nat k) (ranking E q (chosen_alpha E w)), written_at = now\<rparr>)\<rparr>),
         logged = []\<rparr>"
  using assms by (simp add: recommend_def Let_def cache_put_def)

text \<open>The ranked sequence of a valid call: the cached list on a hit, the ranking otherwise.\<close>

lemma ranked_of_recommend:
  assumes "0 \<le> chosen_alpha E w" "chosen_alpha E w \<le> 1" "1 \<le> k"
  shows "ranked_of (recommend E cache now q k w) =
    Inr (case cached E cache q (chosen_alpha E w) of
           None \<Rightarrow> take (nat k) (ranking E q (chosen_alpha E w))
         | Some e \<Rightarrow> take (nat k) (results e))"
proof (cases cache)
  case None
  then show ?thesis
    by (simp add: recommend_no_cache [OF assms] ranked_of_def cached_def)
next
  case (Some c)
  show ?thesis
  proof (cases "cache_get c (key_of E q (chosen_alpha E w))")
    case hit: (Some e)
    with Some show ?thesis
      by (simp add: recommend_hit [OF assms hit] ranked_of_def cached_def)
  next
    case miss: None
    show ?thesis
    proof (cases "storage_fault c")
      case True
      with Some miss show ?thesis
        by (simp add: recommend_write_failed [OF assms miss True] ranked_of_def cached_def)
    next
      case False
      with Some miss show ?thesis
        by (simp add: recommend_written [OF assms miss False] ranked_of_def cached_def)
    qed
  qed
qed






subsection \<open>The example engines\<close>

lemma horse_tokens:
  "canonical_tokens ''horse for breeding'' = [''breeding'', ''for'', ''horse'']"
  by code_simp


lemma horse_ranking_eq: "ranking horse_engine ''horse for breeding'' (1 / 2) = horse_ranking"
  by (simp add: ranking_def blend_def horse_engine_def horse_lexical_def horse_tokens Let_def
      candidate_codes_def semantic_scores_def min_max_def score_of_def effective_alpha_def
      less_eq_prod_def horse_ranking_def)


lemma horse_key:
  "key_of horse_engine ''horse for breeding'' (1 / 2)
     = (''corpus-v1'', ''breedingforhorse'', ''hybrid'')"
  by (simp add: key_of_def query_fingerprint_def horse_tokens horse_engine_def)



lemma horse_alpha: "chosen_alpha horse_engine None = 1 / 2"
  by (simp add: chosen_alpha_def horse_engine_def)





lemma hybrid_ranked:
  "sorted_wrt ranked_before hybrid_ranking"
  by (simp add: hybrid_ranking_def ranked_before_def)

subsection \<open>The ranked top k\<close>








subsection \<open>Degradation to lexical-only scoring\<close>











subsection \<open>Validation\<close>







subsection \<open>Augmentation\<close>

lemma augmentation_failed:
  "f q cs = Inl failure \<Longrightarrow> augmentation_stage (Some f) q cs = (cs, False)"
  by (simp add: augmentation_stage_def)

lemma augmentation_unavailable:
  assumes "\<forall>f. aug = Some f \<longrightarrow> (\<exists>failure. f q cs = Inl failure)"
  shows "augmentation_stage aug q cs = (cs, False)"
proof (cases aug)
  case None
  then show ?thesis by (simp add: augmentation_stage_def)
next
  case (Some f)
  with assms obtain failure where "f q cs = Inl failure" by blast
  with Some show ?thesis by (simp add: augmentation_failed)
qed

lemma recommend_augmented_Inr:
  assumes "recommend E cache now q k w = Inr out"
  shows "recommend_augmented E aug cache now q k w =
           Inr \<lparr>candidates = fst (augmentation_stage aug q (ranked out)),
                augmented = snd (augmentation_stage aug q (ranked out)),
                cache_out = cache_after out, logged_out = logged out\<rparr>"
  by (simp add: recommend_augmented_def assms split: prod.splits)

text \<open>
  C4. When the augmentation capability fails, with a timeout, a quota or a network
  failure, the stage hands back the ranked list it was given, tagged as not augmented.
  Whenever \<open>recommend\<close> returns, the augmented pipeline returns as well, whatever the
  capability does, and the cache it leaves is the one \<open>recommend\<close> left: nothing the
  capability produced is in it.
\<close>

theorem augmentation_is_best_effort:
  "(f q cs = Inl failure \<longrightarrow> augmentation_stage (Some f) q cs = (cs, False))
   \<and> (recommend E cache now q k w = Inr out \<longrightarrow>
        (\<exists>resp. recommend_augmented E aug cache now q k w = Inr resp
           \<and> cache_out resp = cache_after out
           \<and> ((\<forall>g. aug = Some g \<longrightarrow> (\<exists>failure. g q (ranked out) = Inl failure)) \<longrightarrow>
                 candidates resp = ranked out \<and> \<not> augmented resp)))"
proof (intro conjI impI)
  assume "f q cs = Inl failure"
  then show "augmentation_stage (Some f) q cs = (cs, False)"
    by (rule augmentation_failed)
next
  assume run: "recommend E cache now q k w = Inr out"
  let ?resp = "\<lparr>candidates = fst (augmentation_stage aug q (ranked out)),
                augmented = snd (augmentation_stage aug q (ranked out)),
                cache_out = cache_after out, logged_out = logged out\<rparr>"
  have "recommend_augmented E aug cache now q k w = Inr ?resp"
    by (rule recommend_augmented_Inr [OF run])
  moreover have "cache_out ?resp = cache_after out"
    by simp
  moreover have "(\<forall>g. aug = Some g \<longrightarrow> (\<exists>failure. g q (ranked out) = Inl failure)) \<longrightarrow>
                 candidates ?resp = ranked out \<and> \<not> augmented ?resp"
    by (simp add: augmentation_unavailable)
  ultimately show "\<exists>resp. recommend_augmented E aug cache now q k w = Inr resp
           \<and> cache_out resp = cache_after out
           \<and> ((\<forall>g. aug = Some g \<longrightarrow> (\<exists>failure. g q (ranked out) = Inl failure)) \<longrightarrow>
                 candidates resp = ranked out \<and> \<not> augmented resp)"
    by blast
qed

lemma horse_hit:
  "recommend horse_engine (Some horse_cache) 9 ''horse for breeding'' 1 None
     = Inr \<lparr>ranked = [\<lparr>entry_code = ''0101.21'', lexical = 1, semantic = 0, blended = 1\<rparr>],
            cache_after = Some horse_cache, logged = []\<rparr>"
  by (simp add: recommend_def horse_alpha horse_key cache_get_def horse_cache_def
      horse_ranking_def Let_def)

theorem augmentation_is_best_effort_witness:
  "timing_out ''horse for breeding''
       [\<lparr>entry_code = ''0101.21'', lexical = 1, semantic = 0, blended = 1\<rparr>] = Inl Timeout
   \<and> augmentation_stage (Some timing_out) ''horse for breeding''
         [\<lparr>entry_code = ''0101.21'', lexical = 1, semantic = 0, blended = 1\<rparr>]
       = ([\<lparr>entry_code = ''0101.21'', lexical = 1, semantic = 0, blended = 1\<rparr>], False)
   \<and> (\<exists>resp. recommend_augmented horse_engine (Some timing_out) (Some horse_cache) 9
                 ''horse for breeding'' 1 None = Inr resp
         \<and> cache_out resp = Some horse_cache
         \<and> candidates resp = [\<lparr>entry_code = ''0101.21'', lexical = 1, semantic = 0, blended = 1\<rparr>]
         \<and> \<not> augmented resp)"
proof -
  let ?top = "[\<lparr>entry_code = ''0101.21'', lexical = 1, semantic = 0, blended = 1\<rparr>]"
  have t: "timing_out ''horse for breeding'' ?top = Inl Timeout"
    by (simp add: timing_out_def)
  have u: "\<forall>g. Some timing_out = Some g \<longrightarrow> (\<exists>failure. g ''horse for breeding'' ?top = Inl failure)"
    using t by auto
  from augmentation_is_best_effort
         [where f = timing_out and q = "''horse for breeding''" and cs = ?top
            and failure = Timeout and E = horse_engine and cache = "Some horse_cache"
            and now = 9 and k = 1 and w = None and aug = "Some timing_out"
            and out = "\<lparr>ranked = ?top, cache_after = Some horse_cache, logged = []\<rparr>"]
  show ?thesis
    using t u horse_hit by simp
qed

subsection \<open>The cache is an optimisation\<close>






subsection \<open>Entries of another corpus\<close>

lemma recommend_rejects_alike:
  assumes "\<not> (0 \<le> chosen_alpha E w \<and> chosen_alpha E w \<le> 1 \<and> 1 \<le> k)"
  shows "recommend E cache now q k w = recommend E cache' now q k w"
proof (cases "chosen_alpha E w < 0 \<or> 1 < chosen_alpha E w")
  case True
  then show ?thesis
    by (cases "chosen_alpha E w < 0") (simp_all add: recommend_def Let_def)
next
  case False
  with assms have "k < 1" by auto
  with False show ?thesis
    by (simp add: recommend_def Let_def)
qed

lemma cached_live_only: "cached E (Some (live_only E c)) q a = cached E (Some c) q a"
  by (simp add: cached_def cache_get_def live_only_def key_of_def)

lemma cached_all_stale:
  assumes "\<forall>key e. entries c key = Some e \<longrightarrow> fst key \<noteq> corpus_fp E"
  shows "cached E (Some c) q a = None"
proof (cases "entries c (key_of E q a)")
  case None
  then show ?thesis
    by (simp add: cached_def cache_get_def)
next
  case (Some e)
  with assms have "fst (key_of E q a) \<noteq> corpus_fp E"
    by blast
  then show ?thesis
    by (simp add: key_of_def)
qed

text \<open>
  C6. An entry is found only under the corpus fingerprint it was written under: removing
  from the cache every entry of another corpus fingerprint changes neither what a call
  finds nor what it returns, and when every entry is of another fingerprint the call
  finds none and returns what it returns with no cache at all, the newly computed
  ranking.
\<close>

theorem stale_entries_are_absent:
  "cached E (Some (live_only E c)) q a = cached E (Some c) q a
   \<and> ranked_of (recommend E (Some (live_only E c)) now q k w)
       = ranked_of (recommend E (Some c) now q k w)
   \<and> ((\<forall>key e. entries c key = Some e \<longrightarrow> fst key \<noteq> corpus_fp E) \<longrightarrow>
         cached E (Some c) q a = None
         \<and> ranked_of (recommend E (Some c) now q k w) = ranked_of (recommend E None now q k w))"
proof (intro conjI impI)
  show "cached E (Some (live_only E c)) q a = cached E (Some c) q a"
    by (rule cached_live_only)
next
  show "ranked_of (recommend E (Some (live_only E c)) now q k w)
          = ranked_of (recommend E (Some c) now q k w)"
  proof (cases "0 \<le> chosen_alpha E w \<and> chosen_alpha E w \<le> 1 \<and> 1 \<le> k")
    case True
    then have valid: "0 \<le> chosen_alpha E w" "chosen_alpha E w \<le> 1" "1 \<le> k"
      by simp_all
    show ?thesis
      by (simp only: ranked_of_recommend [OF valid] cached_live_only)
  next
    case False
    then show ?thesis
      by (simp only: recommend_rejects_alike [OF False, of "Some (live_only E c)" now q "Some c"])
  qed
next
  assume stale: "\<forall>key e. entries c key = Some e \<longrightarrow> fst key \<noteq> corpus_fp E"
  show "cached E (Some c) q a = None"
    by (rule cached_all_stale [OF stale])
next
  assume stale: "\<forall>key e. entries c key = Some e \<longrightarrow> fst key \<noteq> corpus_fp E"
  show "ranked_of (recommend E (Some c) now q k w) = ranked_of (recommend E None now q k w)"
  proof (cases "0 \<le> chosen_alpha E w \<and> chosen_alpha E w \<le> 1 \<and> 1 \<le> k")
    case True
    then have valid: "0 \<le> chosen_alpha E w" "chosen_alpha E w \<le> 1" "1 \<le> k"
      by simp_all
    have "cached E None q (chosen_alpha E w) = None"
      by (simp add: cached_def)
    then show ?thesis
      by (simp only: ranked_of_recommend [OF valid] cached_all_stale [OF stale])
  next
    case False
    then show ?thesis
      by (simp only: recommend_rejects_alike [OF False, of "Some c" now q None])
  qed
qed

lemma stale_cache_stale:
  "\<forall>key e. entries stale_cache key = Some e \<longrightarrow> fst key \<noteq> corpus_fp horse_engine"
  by (simp add: stale_cache_def horse_engine_def split: if_splits)

theorem stale_entries_are_absent_witness:
  "entries stale_cache (''corpus-v0'', ''breedingforhorse'', ''hybrid'')
     = Some \<lparr>results = rev horse_ranking, written_at = 1\<rparr>
   \<and> corpus_fp horse_engine = ''corpus-v1''
   \<and> cached horse_engine (Some stale_cache) ''horse for breeding'' (1 / 2) = None
   \<and> ranked_of (recommend horse_engine (Some stale_cache) 2 ''horse for breeding'' 3 None)
       = Inr [\<lparr>entry_code = ''0101.21'', lexical = 1, semantic = 0, blended = 1\<rparr>,
              \<lparr>entry_code = ''0101.29'', lexical = 0, semantic = 0, blended = 0\<rparr>]
   \<and> ranked_of (recommend horse_engine (Some (live_only horse_engine stale_cache)) 2
                   ''horse for breeding'' 3 None)
       = Inr [\<lparr>entry_code = ''0101.21'', lexical = 1, semantic = 0, blended = 1\<rparr>,
              \<lparr>entry_code = ''0101.29'', lexical = 0, semantic = 0, blended = 0\<rparr>]"
proof -
  have fresh: "ranked_of (recommend horse_engine None 2 ''horse for breeding'' 3 None)
          = Inr [\<lparr>entry_code = ''0101.21'', lexical = 1, semantic = 0, blended = 1\<rparr>,
                 \<lparr>entry_code = ''0101.29'', lexical = 0, semantic = 0, blended = 0\<rparr>]"
    by (simp add: recommend_def horse_alpha horse_ranking_eq ranked_of_def Let_def
        horse_ranking_def)
  have e: "entries stale_cache (''corpus-v0'', ''breedingforhorse'', ''hybrid'')
             = Some \<lparr>results = rev horse_ranking, written_at = 1\<rparr>"
    by (simp add: stale_cache_def)
  have f: "corpus_fp horse_engine = ''corpus-v1''"
    by (simp add: horse_engine_def)
  from stale_entries_are_absent
         [where E = horse_engine and c = stale_cache and q = "''horse for breeding''"
            and a = "1 / 2" and now = 2 and k = 3 and w = None]
       stale_cache_stale
  have "cached horse_engine (Some stale_cache) ''horse for breeding'' (1 / 2) = None"
    and "ranked_of (recommend horse_engine (Some stale_cache) 2 ''horse for breeding'' 3 None)
           = ranked_of (recommend horse_engine None 2 ''horse for breeding'' 3 None)"
    and "ranked_of (recommend horse_engine (Some (live_only horse_engine stale_cache)) 2
                      ''horse for breeding'' 3 None)
           = ranked_of (recommend horse_engine (Some stale_cache) 2 ''horse for breeding'' 3 None)"
    by blast+
  with fresh e f show ?thesis
    by simp
qed

subsection \<open>The query fingerprint\<close>





end
